theory Spec2Isabelle
  imports Complex_Main "HOL-Library.Sublist" "HOL-Library.AList"
begin

section \<open>Strings and exceptions\<close>

text \<open>
  Python strings are modelled as \<^typ>\<open>string\<close> (byte strings; a non-ASCII character is its
  UTF-8 bytes). The code only ever uses the text \<open>str(e)\<close> of an exception it catches,
  so an exception is represented by that text.
\<close>

type_synonym exn = string

text \<open>\<open>sub in s\<close> on strings: \<open>sub\<close> occurs as a contiguous slice of \<open>s\<close>.\<close>

fun str_contains :: "string \<Rightarrow> string \<Rightarrow> bool" where
  "str_contains sub [] = (sub = [])"
| "str_contains sub (c # s) = (prefix sub (c # s) \<or> str_contains sub s)"

text \<open>\<open>s.lower()\<close> on the ASCII letters.\<close>

definition char_lower :: "char \<Rightarrow> char" where
  "char_lower c =
     (case map_of (zip ''ABCDEFGHIJKLMNOPQRSTUVWXYZ'' ''abcdefghijklmnopqrstuvwxyz'') c of
        Some l \<Rightarrow> l
      | None \<Rightarrow> c)"

definition lower :: "string \<Rightarrow> string" where
  "lower s = map char_lower s"

text \<open>\<open>s.split('.')[0]\<close>: the part of \<open>s\<close> before its first dot.\<close>

definition top_module :: "string \<Rightarrow> string" where
  "top_module s = takeWhile (\<lambda>c. c \<noteq> CHR ''.'') s"

section \<open>The syntax tree walked by the validator\<close>

text \<open>
  \<open>ast.parse\<close> belongs to the Python library. Of its tree the validator looks at
  \<open>Import\<close>, \<open>ImportFrom\<close>, \<open>Call\<close>, \<open>Name\<close> and \<open>Attribute\<close> nodes; every other
  node kind is \<open>Other\<close> with its child nodes in field order. \<open>Call f args keywords\<close>
  has the callee, the positional arguments and the keyword nodes; \<open>Alias\<close> is the
  \<open>alias\<close> node of an import; \<open>ctx\<close> is the \<open>Load\<close>/\<open>Store\<close> leaf of a name or attribute.
\<close>

datatype node =
    Import "string list"
  | ImportFrom "string option" "string list"
  | Call node "node list" "node list"
  | Name string
  | Attribute node string
  | Alias string
  | Other "node list"

definition ctx :: node where
  "ctx = Other []"

fun iter_child_nodes :: "node \<Rightarrow> node list" where
  "iter_child_nodes (Import names) = map Alias names"
| "iter_child_nodes (ImportFrom m names) = map Alias names"
| "iter_child_nodes (Call f args keywords) = f # args @ keywords"
| "iter_child_nodes (Name i) = [ctx]"
| "iter_child_nodes (Attribute v a) = [v, ctx]"
| "iter_child_nodes (Alias a) = []"
| "iter_child_nodes (Other cs) = cs"

fun nsize :: "node \<Rightarrow> nat" where
  "nsize (Import names) = Suc (length names)"
| "nsize (ImportFrom m names) = Suc (length names)"
| "nsize (Call f args keywords) =
     Suc (nsize f + sum_list (map nsize args) + sum_list (map nsize keywords))"
| "nsize (Name i) = 2"
| "nsize (Attribute v a) = Suc (Suc (nsize v))"
| "nsize (Alias a) = 1"
| "nsize (Other cs) = Suc (sum_list (map nsize cs))"

lemma nsize_aliases: "sum_list (map nsize (map Alias names)) = length names"
  by (induction names) auto

lemma children_smaller: "sum_list (map nsize (iter_child_nodes n)) < nsize n"
  by (cases n) (auto simp: nsize_aliases ctx_def simp del: map_map)

lemma child_smaller: "c \<in> set (iter_child_nodes n) \<Longrightarrow> nsize c < nsize n"
  using children_smaller[of n] member_le_sum_list[of "nsize c" "map nsize (iter_child_nodes n)"]
  by force

text \<open>
  \<open>ast.walk\<close>: breadth first, a queue that starts with the root; each node taken from the
  front is yielded and its children are appended at the back.
\<close>

function walk_queue :: "node list \<Rightarrow> node list" where
  "walk_queue [] = []"
| "walk_queue (n # todo) = n # walk_queue (todo @ iter_child_nodes n)"
  by pat_completeness auto
termination
  by (relation "measure (\<lambda>q. sum_list (map nsize q))")
     (use children_smaller in \<open>auto simp: add.commute\<close>)

definition ast_walk :: "node \<Rightarrow> node list" where
  "ast_walk tree = walk_queue [tree]"

text \<open>
  What a tree contains, independently of the walk: the node itself and, recursively,
  whatever its children contain.
\<close>

function subnodes :: "node \<Rightarrow> node list" where
  "subnodes n = n # concat (map subnodes (iter_child_nodes n))"
  by pat_completeness auto
termination
  by (relation "measure nsize") (auto simp: child_smaller)

declare subnodes.simps [simp del]

text \<open>The final identifier of a callee: a bare name or the attribute of an attribute access.\<close>

fun callee_name :: "node \<Rightarrow> string option" where
  "callee_name (Name i) = Some i"
| "callee_name (Attribute v a) = Some a"
| "callee_name _ = None"

fun is_call_to :: "string \<Rightarrow> node \<Rightarrow> bool" where
  "is_call_to f (Call g args keywords) = (callee_name g = Some f)"
| "is_call_to f _ = False"

definition contains_call :: "string \<Rightarrow> node \<Rightarrow> bool" where
  "contains_call f tree = list_ex (is_call_to f) (subnodes tree)"

section \<open>Python values and the library\<close>

text \<open>
  The values the code passes around untyped (\<open>Any\<close>): what \<open>json.load\<close> returns, the
  text or bytes read from a file, the content of a chat message. A \<open>dict\<close> keeps its
  insertion order, so it is an association list with distinct keys.
\<close>

datatype pyval =
    PNone
  | PBool bool
  | PInt int
  | PFloat real
  | PStr string
  | PBytes string
  | PList "pyval list"
  | PDict "(string \<times> pyval) list"

text \<open>Truthiness, as \<open>if v:\<close> and \<open>v or w\<close> test it.\<close>

fun truthy :: "pyval \<Rightarrow> bool" where
  "truthy PNone = False"
| "truthy (PBool b) = b"
| "truthy (PInt n) = (n \<noteq> 0)"
| "truthy (PFloat x) = (x \<noteq> 0)"
| "truthy (PStr s) = (s \<noteq> [])"
| "truthy (PBytes b) = (b \<noteq> [])"
| "truthy (PList xs) = (xs \<noteq> [])"
| "truthy (PDict kvs) = (kvs \<noteq> [])"

text \<open>The name of the type of a value, as error messages print it.\<close>

fun type_name :: "pyval \<Rightarrow> string" where
  "type_name PNone = ''NoneType''"
| "type_name (PBool b) = ''bool''"
| "type_name (PInt n) = ''int''"
| "type_name (PFloat x) = ''float''"
| "type_name (PStr s) = ''str''"
| "type_name (PBytes b) = ''bytes''"
| "type_name (PList xs) = ''list''"
| "type_name (PDict kvs) = ''dict''"

definition quoted :: "string \<Rightarrow> string" where
  "quoted s = [CHR 0x27] @ s @ [CHR 0x27]"

definition no_attribute :: "pyval \<Rightarrow> string \<Rightarrow> exn" where
  "no_attribute v attr = quoted (type_name v) @ '' object has no attribute '' @ quoted attr"

text \<open>
  The library functions the code calls are parameters of the model.
  \<open>ast.parse\<close> returns a tree, raises \<open>SyntaxError\<close>, or raises something else (such as
  \<open>ValueError\<close> on a null byte); \<open>re.findall\<close> takes the pattern and the text;
  \<open>repr_list\<close> formats a list of strings as an f-string does; \<open>decode_text\<close> is what
  reading a file opened in text mode does to its bytes (\<open>Inl\<close>: \<open>UnicodeDecodeError\<close>);
  \<open>json_loads\<close> is \<open>json.loads\<close> on a text (\<open>Inl\<close>: \<open>JSONDecodeError\<close>); \<open>b64encode\<close> is
  \<open>base64.b64encode\<close> followed by the decoding of its ASCII result; \<open>str_title\<close> is
  \<open>str.title\<close>; \<open>utcnow\<close> is the ISO text of the n-th reading of the clock.
\<close>

datatype parse_result = Parsed node | SyntaxError string | ParseRaised exn

record pylib =
  ast_parse :: "string \<Rightarrow> parse_result"
  re_findall :: "string \<Rightarrow> string \<Rightarrow> string list"
  repr_list :: "string list \<Rightarrow> string"
  decode_text :: "string \<Rightarrow> exn + string"
  json_loads :: "string \<Rightarrow> exn + pyval"
  b64encode :: "string \<Rightarrow> string"
  str_title :: "string \<Rightarrow> string"
  utcnow :: "nat \<Rightarrow> string"

section \<open>safety\_validator.py\<close>

record ValidationResult =
  is_safe :: bool
  violations :: "string list"
  warnings :: "string list"
  risk_level :: string

definition BLOCKED_IMPORTS :: "string set" where
  "BLOCKED_IMPORTS =
     {''os'', ''subprocess'', ''sys'', ''socket'', ''http'', ''urllib'',
      ''requests'', ''shutil'', ''tempfile'', ''multiprocessing'',
      ''threading'', ''ctypes'', ''importlib'', ''__builtin__'',
      ''__import__'', ''pty'', ''telnetlib'', ''ftplib'', ''smtplib''}"

definition BLOCKED_FUNCTIONS :: "string set" where
  "BLOCKED_FUNCTIONS =
     {''eval'', ''exec'', ''compile'', ''__import__'', ''open'',
      ''input'', ''raw_input'', ''execfile'', ''file'', ''reload''}"

definition SUSPICIOUS_PATTERNS :: "string list" where
  "SUSPICIOUS_PATTERNS =
     [''__'' @ [CHR 0x5C] @ ''w+__'',
      ''getattr'',
      ''setattr'',
      ''delattr'',
      ''globals'' @ [CHR 0x5C] @ ''('',
      ''locals'' @ [CHR 0x5C] @ ''('',
      ''vars'' @ [CHR 0x5C] @ ''('',
      ''dir'' @ [CHR 0x5C] @ ''('']"

text \<open>The body of the loop of \<open>_check_imports\<close> for one node of the walk.\<close>

fun import_violations :: "node \<Rightarrow> string list" where
  "import_violations (Import names) =
     map (\<lambda>name. ''Blocked import: '' @ name)
       (filter (\<lambda>name. top_module name \<in> BLOCKED_IMPORTS) names)"
| "import_violations (ImportFrom m names) =
     (case m of
        None \<Rightarrow> []
      | Some modname \<Rightarrow>
          if modname \<noteq> [] \<and> top_module modname \<in> BLOCKED_IMPORTS
          then [''Blocked import from: '' @ modname] else [])"
| "import_violations _ = []"

definition check_imports :: "node \<Rightarrow> string list" where
  "check_imports tree = concat (map import_violations (ast_walk tree))"

text \<open>The body of the loop of \<open>_check_functions\<close> for one node of the walk.\<close>

fun function_violations :: "node \<Rightarrow> string list" where
  "function_violations (Call f args keywords) =
     (case callee_name f of
        None \<Rightarrow> []
      | Some func_name \<Rightarrow>
          if func_name \<in> BLOCKED_FUNCTIONS
          then [''Blocked function call: '' @ func_name @ ''()''] else [])"
| "function_violations _ = []"

definition check_functions :: "node \<Rightarrow> string list" where
  "check_functions tree = concat (map function_violations (ast_walk tree))"

text \<open>\<open>_check_file_operations\<close> never adds a violation; it warns on attribute calls.\<close>

fun file_warnings :: "node \<Rightarrow> string list" where
  "file_warnings (Call (Attribute v attr) args keywords) =
     (if attr \<in> set [''open'', ''write_text'', ''write_bytes'', ''read_text'', ''read_bytes'']
      then [''File operation: Path.'' @ attr @ ''()''] else [])"
| "file_warnings _ = []"

definition check_file_operations :: "node \<Rightarrow> string list \<times> string list" where
  "check_file_operations tree = ([], concat (map file_warnings (ast_walk tree)))"

definition safe_patterns :: "string set" where
  "safe_patterns = {''__init__'', ''__main__'', ''__name__'', ''__file__''}"

definition pattern_warning :: "pylib \<Rightarrow> string \<Rightarrow> string \<Rightarrow> string list" where
  "pattern_warning L code pattern =
     (let matches = re_findall L pattern code;
          dangerous_matches = filter (\<lambda>m. m \<notin> safe_patterns) matches
      in if matches \<noteq> [] \<and> dangerous_matches \<noteq> []
         then [''Suspicious pattern: '' @ pattern @ '' (matches: ''
                 @ repr_list L (take 3 dangerous_matches) @ '')'']
         else [])"

definition check_suspicious_patterns :: "pylib \<Rightarrow> string \<Rightarrow> string list" where
  "check_suspicious_patterns L code = concat (map (pattern_warning L code) SUSPICIOUS_PATTERNS)"

definition critical_keywords :: "string list" where
  "critical_keywords = [''exec'', ''eval'', ''import os'', ''subprocess'']"

definition assess_risk :: "string list \<Rightarrow> string list \<Rightarrow> string" where
  "assess_risk vs ws =
     (if vs = [] \<and> ws = [] then ''safe''
      else if vs \<noteq> [] then
        (if list_ex (\<lambda>v. list_ex (\<lambda>keyword. str_contains keyword (lower v)) critical_keywords) vs
         then ''critical'' else ''high'')
      else if length ws > 5 then ''medium''
      else if length ws > 0 then ''low''
      else ''safe'')"

text \<open>
  \<open>validate\<close>: \<open>Inl\<close> is an exception that leaves the function (only \<open>SyntaxError\<close> is
  caught), \<open>Inr\<close> the result it returns.
\<close>

definition validate :: "pylib \<Rightarrow> string \<Rightarrow> exn + ValidationResult" where
  "validate L code =
     (case ast_parse L code of
        SyntaxError e \<Rightarrow>
          Inr \<lparr>is_safe = False, violations = [''Syntax error: '' @ e],
               warnings = [], risk_level = ''critical''\<rparr>
      | ParseRaised e \<Rightarrow> Inl e
      | Parsed tree \<Rightarrow>
          (let vs = check_imports tree @ check_functions tree
                      @ fst (check_file_operations tree);
               ws = snd (check_file_operations tree) @ check_suspicious_patterns L code;
               risk = assess_risk vs ws
           in Inr \<lparr>is_safe = (risk \<in> set [''safe'', ''low'']), violations = vs,
                   warnings = ws, risk_level = risk\<rparr>))"

section \<open>sandbox/executor.py\<close>

text \<open>
  \<open>outputs\<close> is the dictionary of collected files in insertion order. \<open>metadata\<close> is
  \<open>None\<close> or the pair of the execution id and the value \<open>container.wait\<close> returned.
\<close>

record ExecutionResult =
  success :: bool
  stdout :: string
  stderr :: string
  outputs :: "(string \<times> pyval) list"
  execution_time :: real
  error :: "string option"
  metadata :: "(string \<times> pyval) option"

text \<open>
  What the world outside answers during one execution: the random id, the file system,
  the container daemon and the clock. \<open>containers.run\<close> returns a container or raises
  (\<open>ContainerError\<close> with its decoded \<open>stdout\<close>, \<open>stderr\<close> and text, or anything else);
  \<open>container.wait(timeout)\<close> returns the daemon's answer or raises, which is what it does
  when the deadline expires first; \<open>outputs_dir\<close> lists the entries of \<open>outputs/\<close> in
  \<open>iterdir\<close> order when the directory exists; \<open>elapsed\<close> is the measured running time.
  \<open>task_end\<close> says how the task of a batch that runs the analysis ends: with the result
  of \<open>analyze\<close>, with an \<open>Exception\<close> raised outside the handler of \<open>analyze\<close>, or with a
  \<open>BaseException\<close> that is no \<open>Exception\<close> (\<open>asyncio.CancelledError\<close>), which that handler
  does not catch.
\<close>

datatype task_end = Completes | EndsWithException exn | EndsWithBaseException exn

datatype run_outcome = Started | RunContainerError string string exn | RunRaised exn

datatype dir_entry = RegularFile string | NotAFile

record world =
  uuid4 :: string
  mkdtemp_raises :: "exn option"
  prepare_raises :: "exn option"
  run_outcome :: run_outcome
  wait_outcome :: "exn + pyval"
  logs_outcome :: "exn + string"
  stop_raises :: "exn option"
  remove_raises :: "exn option"
  outputs_dir :: "(string \<times> dir_entry) list option"
  elapsed :: real
  data_context_raises :: "exn option"
  llm_code :: "exn + string"
  llm_insights :: "exn + string"
  task_end :: task_end

text \<open>What an execution does to the workspace and to the container daemon, in order.\<close>

datatype effect =
    Mkdtemp
  | WriteScript string
  | ContainerRun string
  | ContainerWait int
  | ContainerLogs
  | ContainerStop int
  | ContainerRemove bool
  | Rmtree

definition TIMEOUT_SECONDS :: int where
  "TIMEOUT_SECONDS = 300"

text \<open>One file of \<open>_collect_outputs\<close>: the value stored under its name, or the exception.\<close>

definition collect_file :: "pylib \<Rightarrow> string \<Rightarrow> string \<Rightarrow> exn + pyval" where
  "collect_file L filename bytes =
     (if suffix ''.json'' filename then
        (case decode_text L bytes of Inl e \<Rightarrow> Inl e | Inr text \<Rightarrow> json_loads L text)
      else if suffix ''.png'' filename \<or> suffix ''.jpg'' filename \<or> suffix ''.jpeg'' filename
        then Inr (PBytes bytes)
      else if suffix ''.html'' filename then
        (case decode_text L bytes of Inl e \<Rightarrow> Inl e | Inr text \<Rightarrow> Inr (PStr text))
      else if suffix ''.csv'' filename then
        (case decode_text L bytes of Inl e \<Rightarrow> Inl e | Inr text \<Rightarrow> Inr (PStr text))
      else
        (case decode_text L bytes of Inl e \<Rightarrow> Inr (PBytes bytes) | Inr text \<Rightarrow> Inr (PStr text)))"

fun collect_loop ::
  "pylib \<Rightarrow> (string \<times> dir_entry) list \<Rightarrow> (string \<times> pyval) list \<Rightarrow> exn + (string \<times> pyval) list"
where
  "collect_loop L [] outs = Inr outs"
| "collect_loop L ((filename, NotAFile) # rest) outs = collect_loop L rest outs"
| "collect_loop L ((filename, RegularFile bytes) # rest) outs =
     (case collect_file L filename bytes of
        Inl e \<Rightarrow> Inl e
      | Inr v \<Rightarrow> collect_loop L rest (AList.update filename v outs))"

definition collect_outputs ::
  "pylib \<Rightarrow> (string \<times> dir_entry) list option \<Rightarrow> exn + (string \<times> pyval) list"
where
  "collect_outputs L dir =
     (case dir of None \<Rightarrow> Inr [] | Some entries \<Rightarrow> collect_loop L entries [])"

text \<open>\<open>x == 0\<close> on a Python value: true of the number zero and of \<open>False\<close>.\<close>

definition eq_zero :: "pyval \<Rightarrow> bool" where
  "eq_zero v = (v = PInt 0 \<or> v = PFloat 0 \<or> v = PBool False)"

definition exited_ok :: "pyval \<Rightarrow> bool" where
  "exited_ok exit_code =
     (case exit_code of
        PDict kvs \<Rightarrow> eq_zero (case map_of kvs ''StatusCode'' of None \<Rightarrow> PInt 1 | Some v \<Rightarrow> v)
      | v \<Rightarrow> eq_zero v)"

text \<open>The result both \<open>except Exception\<close> handlers build from the exception's text.\<close>

definition error_result :: "exn \<Rightarrow> real \<Rightarrow> ExecutionResult" where
  "error_result e t =
     \<lparr>success = False, stdout = [], stderr = e, outputs = [],
      execution_time = t, error = Some e, metadata = None\<rparr>"

text \<open>
  The handler around \<open>wait\<close> and \<open>logs\<close>: stop the container with a grace of 5 seconds and
  raise again; an exception of \<open>stop\<close> itself takes the place of the first one.
\<close>

definition stop_and_reraise :: "world \<Rightarrow> exn \<Rightarrow> exn" where
  "stop_and_reraise W e = (case stop_raises W of None \<Rightarrow> e | Some e' \<Rightarrow> e')"

text \<open>
  \<open>_run_container\<close>. Every exception ends in a result; the container, once started, is
  removed with \<open>force=True\<close> in the \<open>finally\<close> block, whose own failure is only logged.
\<close>

definition run_container ::
  "world \<Rightarrow> pylib \<Rightarrow> string \<Rightarrow> int \<Rightarrow> ExecutionResult \<times> effect list"
where
  "run_container W L execution_id timeout =
     (let launch = ContainerRun (''sandbox_'' @ execution_id) in
      case run_outcome W of
        RunRaised e \<Rightarrow> (error_result e (elapsed W), [launch])
      | RunContainerError out err msg \<Rightarrow>
          (\<lparr>success = False, stdout = out, stderr = (if err \<noteq> [] then err else msg),
            outputs = [], execution_time = elapsed W, error = Some msg, metadata = None\<rparr>,
           [launch])
      | Started \<Rightarrow>
          (case wait_outcome W of
             Inl e \<Rightarrow>
               (error_result (stop_and_reraise W e) (elapsed W),
                [launch, ContainerWait timeout, ContainerStop 5, ContainerRemove True])
           | Inr exit_code \<Rightarrow>
               (case logs_outcome W of
                  Inl e \<Rightarrow>
                    (error_result (stop_and_reraise W e) (elapsed W),
                     [launch, ContainerWait timeout, ContainerLogs, ContainerStop 5,
                      ContainerRemove True])
                | Inr logs \<Rightarrow>
                    (case collect_outputs L (outputs_dir W) of
                       Inl e \<Rightarrow>
                         (error_result e (elapsed W),
                          [launch, ContainerWait timeout, ContainerLogs, ContainerRemove True])
                     | Inr outs \<Rightarrow>
                         (\<lparr>success = exited_ok exit_code, stdout = logs, stderr = [],
                           outputs = outs, execution_time = elapsed W, error = None,
                           metadata = Some (execution_id, exit_code)\<rparr>,
                          [launch, ContainerWait timeout, ContainerLogs,
                           ContainerRemove True])))))"

text \<open>
  \<open>execute\<close>. \<open>mkdtemp\<close> stands before the \<open>try\<close>, so its exception leaves the function
  (\<open>Inl\<close>); a failure while the workspace is filled gives a result with time \<open>0.0\<close>; the
  workspace is removed on every path.
\<close>

definition execute ::
  "world \<Rightarrow> pylib \<Rightarrow> string \<Rightarrow> int option \<Rightarrow> (exn + ExecutionResult) \<times> effect list"
where
  "execute W L script timeout =
     (let execution_id = take 8 (uuid4 W);
          t = (case timeout of
                 None \<Rightarrow> TIMEOUT_SECONDS
               | Some t \<Rightarrow> if t = 0 then TIMEOUT_SECONDS else t)
      in case mkdtemp_raises W of
           Some e \<Rightarrow> (Inl e, [Mkdtemp])
         | None \<Rightarrow>
             (case prepare_raises W of
                Some e \<Rightarrow> (Inr (error_result e 0), [Mkdtemp, Rmtree])
              | None \<Rightarrow>
                  (Inr (fst (run_container W L execution_id t)),
                   [Mkdtemp, WriteScript script] @ snd (run_container W L execution_id t)
                     @ [Rmtree])))"

section \<open>code\_generator.py\<close>

text \<open>
  \<open>str.strip()\<close>: whitespace is removed at both ends. The whitespace characters of a
  Python \<open>str\<close> are the code points U+0009 to U+000D, U+001C to U+0020, U+0085, U+00A0,
  U+1680, U+2000 to U+200A, U+2028, U+2029, U+202F, U+205F and U+3000, here as their
  UTF-8 bytes.
\<close>

definition whitespace :: "string list" where
  "whitespace =
     [[CHR 0x09], [CHR 0x0A], [CHR 0x0B], [CHR 0x0C], [CHR 0x0D], [CHR 0x1C], [CHR 0x1D],
      [CHR 0x1E], [CHR 0x1F], [CHR 0x20], [CHR 0xC2, CHR 0x85], [CHR 0xC2, CHR 0xA0],
      [CHR 0xE1, CHR 0x9A, CHR 0x80], [CHR 0xE2, CHR 0x80, CHR 0x80],
      [CHR 0xE2, CHR 0x80, CHR 0x81], [CHR 0xE2, CHR 0x80, CHR 0x82],
      [CHR 0xE2, CHR 0x80, CHR 0x83], [CHR 0xE2, CHR 0x80, CHR 0x84],
      [CHR 0xE2, CHR 0x80, CHR 0x85], [CHR 0xE2, CHR 0x80, CHR 0x86],
      [CHR 0xE2, CHR 0x80, CHR 0x87], [CHR 0xE2, CHR 0x80, CHR 0x88],
      [CHR 0xE2, CHR 0x80, CHR 0x89], [CHR 0xE2, CHR 0x80, CHR 0x8A],
      [CHR 0xE2, CHR 0x80, CHR 0xA8], [CHR 0xE2, CHR 0x80, CHR 0xA9],
      [CHR 0xE2, CHR 0x80, CHR 0xAF], [CHR 0xE2, CHR 0x81, CHR 0x9F],
      [CHR 0xE3, CHR 0x80, CHR 0x80]]"

text \<open>Remove from the front of \<open>s\<close> the sequences of \<open>ws\<close>, as long as one is a prefix.\<close>

function drop_leading :: "string list \<Rightarrow> string \<Rightarrow> string" where
  "drop_leading ws s =
     (case find (\<lambda>w. w \<noteq> [] \<and> prefix w s) ws of
        None \<Rightarrow> s
      | Some w \<Rightarrow> drop_leading ws (drop (length w) s))"
  by pat_completeness auto
termination
proof (relation "measure (\<lambda>(ws, s). length s)")
  show "wf (measure (\<lambda>(ws, s). length s))" by simp
next
  fix ws :: "string list" and s w :: string
  assume "find (\<lambda>w. w \<noteq> [] \<and> prefix w s) ws = Some w"
  then have "w \<noteq> []" and "prefix w s"
    by (auto simp: find_Some_iff)
  then have "length (drop (length w) s) < length s"
    by (cases s; cases w) auto
  then show "((ws, drop (length w) s), (ws, s)) \<in> measure (\<lambda>(ws, s). length s)"
    by simp
qed

declare drop_leading.simps [simp del]

definition strip :: "string \<Rightarrow> string" where
  "strip s = rev (drop_leading (map rev whitespace) (rev (drop_leading whitespace s)))"

definition fence :: string where
  "fence = [CHR 0x60, CHR 0x60, CHR 0x60]"

definition extract_code :: "string \<Rightarrow> string" where
  "extract_code response_text =
     (let code = strip response_text;
          code1 = (if prefix (fence @ ''python'') code
                     then strip (drop (length (fence @ ''python'')) code)
                   else if prefix fence code then strip (drop (length fence) code)
                   else code)
      in if suffix fence code1 then strip (take (length code1 - length fence) code1)
         else code1)"

text \<open>
  \<open>generate\<close>: the answer of the model is a parameter (\<open>llm_code\<close>); an exception of the
  call is logged and raised again.
\<close>

definition generate :: "world \<Rightarrow> exn + string" where
  "generate W = (case llm_code W of Inl e \<Rightarrow> Inl e | Inr text \<Rightarrow> Inr (extract_code text))"

definition name_error_json :: exn where
  "name_error_json = ''name '' @ quoted ''json'' @ '' is not defined''"

text \<open>
  \<open>generate_insights\<close>. A truthy \<open>insights.txt\<close> is returned as it is. Otherwise the
  prompt is built: its f-string calls \<open>json.dumps\<close> when the metrics are truthy, and the
  module \<open>json\<close> is not imported in this file, so that raises \<open>NameError\<close> outside the
  \<open>try\<close>. Then the model is asked; its failure gives the fixed sentence.
\<close>

definition generate_insights :: "world \<Rightarrow> (string \<times> pyval) list \<Rightarrow> exn + pyval" where
  "generate_insights W outs =
     (let metrics = (case map_of outs ''metrics.json'' of None \<Rightarrow> PDict [] | Some v \<Rightarrow> v);
          insights_file = (case map_of outs ''insights.txt'' of None \<Rightarrow> PStr [] | Some v \<Rightarrow> v)
      in if truthy insights_file then Inr insights_file
         else if truthy metrics then Inl name_error_json
         else (case llm_insights W of
                 Inl e \<Rightarrow> Inr (PStr ''Could not generate insights from the analysis results.'')
               | Inr text \<Rightarrow> Inr (PStr (strip text))))"

section \<open>result\_processor.py\<close>

record Visualization =
  viz_type :: string
  viz_format :: string
  viz_filename :: string
  viz_data :: pyval
  viz_title :: string

record AnalysisResult =
  a_success :: bool
  a_query :: string
  a_insights :: pyval
  a_visualizations :: "Visualization list"
  a_metrics :: pyval
  a_data_outputs :: "(string \<times> string \<times> pyval) list"
  a_execution_time :: real
  a_error :: "string option"
  a_raw_output :: "string option"

text \<open>\<open>s.replace(old, new)\<close> for a non-empty \<open>old\<close>, from left to right.\<close>

function replace_all :: "string \<Rightarrow> string \<Rightarrow> string \<Rightarrow> string" where
  "replace_all old new [] = []"
| "replace_all old new (c # s) =
     (if old \<noteq> [] \<and> prefix old (c # s)
      then new @ replace_all old new (drop (length old) (c # s))
      else c # replace_all old new s)"
  by pat_completeness auto
termination
  by (relation "measure (\<lambda>(old, new, s). length s)") auto

text \<open>\<open>name.rsplit('.', 1)[0]\<close>: the part before the last dot, all of it without a dot.\<close>

definition drop_extension :: "string \<Rightarrow> string" where
  "drop_extension s =
     (if CHR ''.'' \<in> set s then rev (tl (dropWhile (\<lambda>c. c \<noteq> CHR ''.'') (rev s))) else s)"

definition strip_prefix :: "string \<Rightarrow> string \<Rightarrow> string" where
  "strip_prefix name p = (if prefix p name then drop (length p) name else name)"

definition filename_to_title :: "pylib \<Rightarrow> string \<Rightarrow> string" where
  "filename_to_title L filename =
     str_title L
       (replace_all ''_'' '' ''
          (foldl strip_prefix (drop_extension filename)
             [''plot_'', ''chart_'', ''fig_'', ''graph_'']))"

definition visualization_of :: "pylib \<Rightarrow> string \<times> pyval \<Rightarrow> Visualization list" where
  "visualization_of L item =
     (case item of (filename, content) \<Rightarrow>
        if suffix ''.png'' filename then
          [\<lparr>viz_type = ''image'', viz_format = ''png'', viz_filename = filename,
            viz_data = (case content of PBytes b \<Rightarrow> PStr (b64encode L b) | v \<Rightarrow> v),
            viz_title = filename_to_title L filename\<rparr>]
        else if suffix ''.html'' filename then
          [\<lparr>viz_type = ''html'', viz_format = ''html'', viz_filename = filename,
            viz_data = content, viz_title = filename_to_title L filename\<rparr>]
        else [])"

definition extract_visualizations :: "pylib \<Rightarrow> (string \<times> pyval) list \<Rightarrow> Visualization list" where
  "extract_visualizations L outs = concat (map (visualization_of L) outs)"

text \<open>
  \<open>json.loads\<close> on a value of any type: a text is parsed (\<open>DecodeError\<close> is the
  \<open>JSONDecodeError\<close> the callers catch), bytes are decoded first, anything else is a
  \<open>TypeError\<close>, which nobody catches.
\<close>

datatype loads_result = Loaded pyval | DecodeError exn | OtherError exn

fun loads_any :: "pylib \<Rightarrow> pyval \<Rightarrow> loads_result" where
  "loads_any L (PStr s) =
     (case json_loads L s of Inl e \<Rightarrow> DecodeError e | Inr v \<Rightarrow> Loaded v)"
| "loads_any L (PBytes b) =
     (case decode_text L b of
        Inl e \<Rightarrow> OtherError e
      | Inr s \<Rightarrow> (case json_loads L s of Inl e \<Rightarrow> DecodeError e | Inr v \<Rightarrow> Loaded v))"
| "loads_any L v =
     OtherError (''the JSON object must be str, bytes or bytearray, not '' @ type_name v)"

text \<open>\<open>isinstance(content, dict)\<close> decides whether the value is taken or parsed.\<close>

fun dict_or_loads :: "pylib \<Rightarrow> pyval \<Rightarrow> loads_result" where
  "dict_or_loads L (PDict kvs) = Loaded (PDict kvs)"
| "dict_or_loads L v = loads_any L v"

text \<open>\<open>metrics[key] = v\<close>: only a dictionary takes a string key.\<close>

fun set_item :: "pyval \<Rightarrow> string \<Rightarrow> pyval \<Rightarrow> exn + pyval" where
  "set_item (PDict kvs) key v = Inr (PDict (AList.update key v kvs))"
| "set_item (PList xs) key v = Inl ''list indices must be integers or slices, not str''"
| "set_item m key v = Inl (quoted (type_name m) @ '' object does not support item assignment'')"

fun other_json_files :: "pylib \<Rightarrow> (string \<times> pyval) list \<Rightarrow> pyval \<Rightarrow> exn + pyval" where
  "other_json_files L [] metrics = Inr metrics"
| "other_json_files L ((filename, content) # rest) metrics =
     (if suffix ''.json'' filename \<and> filename \<noteq> ''metrics.json'' then
        (case dict_or_loads L content of
           DecodeError e \<Rightarrow> other_json_files L rest metrics
         | OtherError e \<Rightarrow> Inl e
         | Loaded v \<Rightarrow>
             (case set_item metrics (replace_all ''.json'' [] filename) v of
                Inl e \<Rightarrow> Inl e
              | Inr metrics' \<Rightarrow> other_json_files L rest metrics'))
      else other_json_files L rest metrics)"

definition extract_metrics :: "pylib \<Rightarrow> (string \<times> pyval) list \<Rightarrow> exn + pyval" where
  "extract_metrics L outs =
     (case (case map_of outs ''metrics.json'' of
              None \<Rightarrow> Loaded (PDict [])
            | Some v \<Rightarrow> dict_or_loads L v) of
        OtherError e \<Rightarrow> Inl e
      | DecodeError e \<Rightarrow> other_json_files L outs (PDict [])
      | Loaded metrics \<Rightarrow> other_json_files L outs metrics)"

fun extract_data_outputs ::
  "(string \<times> pyval) list \<Rightarrow> (string \<times> string \<times> pyval) list \<Rightarrow> (string \<times> string \<times> pyval) list"
where
  "extract_data_outputs [] data_outputs = data_outputs"
| "extract_data_outputs ((filename, content) # rest) data_outputs =
     (if suffix ''.csv'' filename
        then extract_data_outputs rest (AList.update filename (''csv'', content) data_outputs)
      else if suffix ''.txt'' filename \<and> filename \<noteq> ''insights.txt''
        then extract_data_outputs rest (AList.update filename (''text'', content) data_outputs)
      else extract_data_outputs rest data_outputs)"

definition extract_insights :: "(string \<times> pyval) list \<Rightarrow> pyval" where
  "extract_insights outs =
     (case map_of outs ''insights.txt'' of
        Some v \<Rightarrow> v
      | None \<Rightarrow> PStr ''No insights generated. Check the visualizations and metrics for analysis results.'')"

text \<open>\<open>insights or self._extract_insights(outputs)\<close>.\<close>

definition final_insights :: "pyval option \<Rightarrow> (string \<times> pyval) list \<Rightarrow> pyval" where
  "final_insights insights outs =
     (case insights of
        None \<Rightarrow> extract_insights outs
      | Some v \<Rightarrow> if truthy v then v else extract_insights outs)"

definition process :: "pylib \<Rightarrow> string \<Rightarrow> ExecutionResult \<Rightarrow> pyval option \<Rightarrow> exn + AnalysisResult" where
  "process L query er insights =
     (if \<not> success er then
        Inr \<lparr>a_success = False, a_query = query,
             a_insights = PStr (''Analysis failed: ''
               @ (case error er of
                    None \<Rightarrow> ''Unknown error''
                  | Some e \<Rightarrow> if e \<noteq> [] then e else ''Unknown error'')),
             a_visualizations = [], a_metrics = PDict [], a_data_outputs = [],
             a_execution_time = execution_time er, a_error = error er,
             a_raw_output = Some (stderr er)\<rparr>
      else
        (case extract_metrics L (outputs er) of
           Inl e \<Rightarrow> Inl e
         | Inr metrics \<Rightarrow>
             Inr \<lparr>a_success = True, a_query = query,
                  a_insights = final_insights insights (outputs er),
                  a_visualizations = extract_visualizations L (outputs er),
                  a_metrics = metrics,
                  a_data_outputs = extract_data_outputs (outputs er) [],
                  a_execution_time = execution_time er, a_error = None,
                  a_raw_output = Some (stdout er)\<rparr>))"

section \<open>python\_analysis\_agent.py\<close>

text \<open>The bullet of the validation message, byte for byte as the source file has it.\<close>

definition bullet :: string where
  "bullet = [CHR 0xC3, CHR 0xA2, CHR 0xE2, CHR 0x82, CHR 0xAC, CHR 0xC2, CHR 0xA2]"

text \<open>\<open>sep.join(xs)\<close>.\<close>

fun join :: "string \<Rightarrow> string list \<Rightarrow> string" where
  "join sep [] = []"
| "join sep [x] = x"
| "join sep (x # y # ys) = x @ sep @ join sep (y # ys)"

definition validation_failed :: "string \<Rightarrow> ValidationResult \<Rightarrow> AnalysisResult" where
  "validation_failed query vr =
     \<lparr>a_success = False, a_query = query,
      a_insights = PStr (''Code validation failed. Security violations detected:'' @ [CHR 0x0A]
        @ join [CHR 0x0A] (map (\<lambda>v. bullet @ '' '' @ v) (violations vr))),
      a_visualizations = [], a_metrics = PDict [], a_data_outputs = [],
      a_execution_time = 0, a_error = Some ''Code safety validation failed'',
      a_raw_output = None\<rparr>"

text \<open>What the \<open>except Exception\<close> of \<open>analyze\<close> returns.\<close>

definition analysis_failed :: "string \<Rightarrow> exn \<Rightarrow> AnalysisResult" where
  "analysis_failed query e =
     \<lparr>a_success = False, a_query = query,
      a_insights = PStr (''Analysis failed with error: '' @ e),
      a_visualizations = [], a_metrics = PDict [], a_data_outputs = [],
      a_execution_time = 0, a_error = Some e, a_raw_output = None\<rparr>"

text \<open>Steps 4 and 5 of \<open>analyze\<close>: insights only after a successful execution, then \<open>process\<close>.\<close>

definition insights_and_process ::
  "world \<Rightarrow> pylib \<Rightarrow> string \<Rightarrow> ExecutionResult \<Rightarrow> exn + AnalysisResult"
where
  "insights_and_process W L query er =
     (if success er then
        (case generate_insights W (outputs er) of
           Inl e \<Rightarrow> Inl e
         | Inr insights \<Rightarrow> process L query er (Some insights))
      else process L query er None)"

text \<open>
  \<open>analyze\<close>: the result and what was done to the workspace and the container daemon.
  Every exception of a step ends in \<open>analysis_failed\<close>.
\<close>

definition analyze :: "world \<Rightarrow> pylib \<Rightarrow> string \<Rightarrow> int \<Rightarrow> AnalysisResult \<times> effect list" where
  "analyze W L query timeout =
     (case data_context_raises W of
        Some e \<Rightarrow> (analysis_failed query e, [])
      | None \<Rightarrow>
          (case generate W of
             Inl e \<Rightarrow> (analysis_failed query e, [])
           | Inr code \<Rightarrow>
               (case validate L code of
                  Inl e \<Rightarrow> (analysis_failed query e, [])
                | Inr validation_result \<Rightarrow>
                    if \<not> is_safe validation_result
                    then (validation_failed query validation_result, [])
                    else
                      (case fst (execute W L code (Some timeout)) of
                         Inl e \<Rightarrow> (analysis_failed query e, snd (execute W L code (Some timeout)))
                       | Inr execution_result \<Rightarrow>
                           (case insights_and_process W L query execution_result of
                              Inl e \<Rightarrow> analysis_failed query e
                            | Inr result \<Rightarrow> result,
                            snd (execute W L code (Some timeout)))))))"








section \<open>backend/main.py\<close>

record Message =
  role :: string
  content :: pyval
  timestamp :: string

text \<open>
  The process state: the dictionary \<open>chat_sessions\<close> in insertion order, and how often
  the clock has been read (\<open>datetime.utcnow().isoformat()\<close> is \<open>utcnow L\<close> of that count).
\<close>

record server =
  chat_sessions :: "(string \<times> Message list) list"
  clock :: nat

record SessionInfo =
  session_id :: string
  message_count :: nat
  created_at :: string
  last_updated :: string

definition process_with_agent :: "pyval \<Rightarrow> exn + string" where
  "process_with_agent message =
     (case message of
        PStr m \<Rightarrow>
          Inr (if str_contains ''portfolio'' (lower m) then
                 ''I can help you analyze your portfolio. The system currently shows you have 3 active portfolios with a total value of $150,000. Would you like me to show you detailed performance metrics?''
               else if str_contains ''return'' (lower m) then
                 ''Based on your portfolio data, your year-to-date return is 12.5%, outperforming the S&P 500 by 2.3%. Would you like me to break this down by asset class?''
               else if str_contains ''risk'' (lower m) then
                 ''Your portfolio has a beta of 0.95 and a Sharpe ratio of 1.8, indicating good risk-adjusted returns. The current allocation is 60% stocks, 30% bonds, and 10% cash.''
               else
                 ''I understand you'' @ [CHR 0x27] @ ''re asking about: '' @ quoted m
                 @ ''. I'' @ [CHR 0x27] @ ''m a financial insights agent that can help you with portfolio analysis, performance metrics, risk assessment, and market comparisons. What would you like to know?'')
      | v \<Rightarrow> Inl (no_attribute v ''lower''))"

text \<open>\<open>chat_sessions[session_id].append(m)\<close>; a missing key is a \<open>KeyError\<close>.\<close>

definition append_message :: "string \<Rightarrow> Message \<Rightarrow> server \<Rightarrow> exn + server" where
  "append_message sid m st =
     (case map_of (chat_sessions st) sid of
        None \<Rightarrow> Inl (quoted sid)
      | Some messages \<Rightarrow>
          Inr (st\<lparr>chat_sessions := AList.update sid (messages @ [m]) (chat_sessions st)\<rparr>))"

definition tick :: "server \<Rightarrow> server" where
  "tick st = st\<lparr>clock := Suc (clock st)\<rparr>"

datatype frame = MessageFrame string string | ErrorFrame string

text \<open>
  One round of the loop of \<open>websocket_chat\<close> on the text of an inbound frame: the state
  after it, and the frame to send or the exception that ended the round.
\<close>

definition handle_frame :: "pylib \<Rightarrow> string \<Rightarrow> server \<Rightarrow> string \<Rightarrow> server \<times> (exn + frame)" where
  "handle_frame L sid st data =
     (case json_loads L data of
        Inl e \<Rightarrow> (st, Inl e)
      | Inr message_data \<Rightarrow>
          (case message_data of
             PDict kvs \<Rightarrow>
               (let user_message = (case map_of kvs ''message'' of None \<Rightarrow> PStr [] | Some v \<Rightarrow> v)
                in case append_message sid
                          \<lparr>role = ''user'', content = user_message,
                           timestamp = utcnow L (clock st)\<rparr> (tick st) of
                     Inl e \<Rightarrow> (st, Inl e)
                   | Inr st1 \<Rightarrow>
                       (case process_with_agent user_message of
                          Inl e \<Rightarrow> (st1, Inl e)
                        | Inr response \<Rightarrow>
                            (case append_message sid
                                    \<lparr>role = ''assistant'', content = PStr response,
                                     timestamp = utcnow L (clock st1)\<rparr> (tick st1) of
                               Inl e \<Rightarrow> (st1, Inl e)
                             | Inr st2 \<Rightarrow>
                                 (tick st2,
                                  Inr (MessageFrame response (utcnow L (clock st2)))))))
           | v \<Rightarrow> (st, Inl (no_attribute v ''get''))))"

text \<open>
  What the peer does: it sends a text frame or closes (\<open>receive_text\<close> then raises
  \<open>WebSocketDisconnect\<close>). How the handler stands at the end of the given events: still
  in the loop awaiting a frame, returned after the close of the peer, or returned after
  the error frame of the \<open>except Exception\<close> handler.
\<close>

datatype inbound = TextFrame string | Disconnect

datatype ws_end = AwaitingFrame | PeerClosed | ReturnedAfterError

text \<open>
  The \<open>try\<close> around the \<open>while True\<close> loop: the state, the frames sent, how the handler
  stands, and the events it never read.
\<close>

fun receive_loop ::
  "pylib \<Rightarrow> string \<Rightarrow> server \<Rightarrow> inbound list \<Rightarrow> server \<times> frame list \<times> ws_end \<times> inbound list"
where
  "receive_loop L sid st [] = (st, [], AwaitingFrame, [])"
| "receive_loop L sid st (Disconnect # rest) = (st, [], PeerClosed, rest)"
| "receive_loop L sid st (TextFrame data # rest) =
     (case handle_frame L sid st data of
        (st', Inl e) \<Rightarrow> (st', [ErrorFrame e], ReturnedAfterError, rest)
      | (st', Inr f) \<Rightarrow>
          (case receive_loop L sid st' rest of
             (st'', sent, status, unread) \<Rightarrow> (st'', f # sent, status, unread)))"

definition websocket_chat ::
  "pylib \<Rightarrow> string \<Rightarrow> server \<Rightarrow> inbound list \<Rightarrow> server \<times> frame list \<times> ws_end \<times> inbound list"
where
  "websocket_chat L sid st events =
     receive_loop L sid
       (if map_of (chat_sessions st) sid = None
        then st\<lparr>chat_sessions := AList.update sid [] (chat_sessions st)\<rparr> else st)
       events"

definition session_info :: "string \<times> Message list \<Rightarrow> SessionInfo list" where
  "session_info entry =
     (case entry of (sid, messages) \<Rightarrow>
        if messages \<noteq> [] then
          [\<lparr>session_id = sid, message_count = length messages,
            created_at = timestamp (hd messages), last_updated = timestamp (last messages)\<rparr>]
        else [])"

definition get_sessions :: "server \<Rightarrow> SessionInfo list" where
  "get_sessions st = concat (map session_info (chat_sessions st))"

text \<open>\<open>Inl\<close> is the \<open>HTTPException\<close>: its status code and detail.\<close>

definition get_session_history :: "server \<Rightarrow> string \<Rightarrow> (nat \<times> string) + (string \<times> Message list)" where
  "get_session_history st sid =
     (case map_of (chat_sessions st) sid of
        None \<Rightarrow> Inl (404, ''Session not found'')
      | Some messages \<Rightarrow> Inr (sid, messages))"

section \<open>Sample sources\<close>

text \<open>
  The trees \<open>ast.parse\<close> builds for small sources: a module whose body is an
  \<open>import os\<close> followed by the expression statement \<open>os.system("ls")\<close>, modules
  whose only statement is the call \<open>open(1)\<close> or \<open>exec(1)\<close>, and the module \<open>pass\<close>.
  A constant is a leaf.
\<close>

definition os_system_tree :: node where
  "os_system_tree =
     Other [Import [''os''],
            Other [Call (Attribute (Name ''os'') ''system'') [Other []] []]]"

definition open_call_tree :: node where
  "open_call_tree = Other [Other [Call (Name ''open'') [Other []] []]]"

definition exec_call_tree :: node where
  "exec_call_tree = Other [Other [Call (Name ''exec'') [Other []] []]]"

definition os_system_source :: string where
  "os_system_source = ''import os'' @ [CHR 0x0A] @ ''os.system('' @ [CHR 0x22] @ ''ls'' @ [CHR 0x22] @ '')''"

definition hi_frame :: string where
  "hi_frame = ''{'' @ [CHR 0x22] @ ''message'' @ [CHR 0x22] @ '': ''
                @ [CHR 0x22] @ ''hi'' @ [CHR 0x22] @ ''}''"

text \<open>
  A library instance fixed on these sources; every other text is a syntax error to it.
  None of the suspicious patterns occurs in the sources, so \<open>re.findall\<close> finds
  nothing. The only JSON text it reads is \<open>{"message": "hi"}\<close>; files are ASCII.
\<close>

definition sample_lib :: pylib where
  "sample_lib =
     \<lparr>ast_parse = (\<lambda>code.
        if code = os_system_source then Parsed os_system_tree
        else if code = ''open(1)'' then Parsed open_call_tree
        else if code = ''exec(1)'' then Parsed exec_call_tree
        else if code = ''pass'' then Parsed (Other [Other []])
        else SyntaxError ''invalid syntax''),
      re_findall = (\<lambda>pattern code. []),
      repr_list = (\<lambda>ms. ''[]''),
      decode_text = (\<lambda>bytes. Inr bytes),
      json_loads = (\<lambda>text.
        if text = hi_frame then Inr (PDict [(''message'', PStr ''hi'')])
        else Inl ''Expecting value: line 1 column 1 (char 0)''),
      b64encode = (\<lambda>bytes. if bytes = ''hi'' then ''aGk='' else []),
      str_title = (\<lambda>s. if s = ''perf'' then ''Perf'' else s),
      utcnow = (\<lambda>n. if n = 0 then ''2024-01-01T00:00:00''
                    else if n = 1 then ''2024-01-01T00:00:01''
                    else ''2024-01-01T00:00:02'')\<rparr>"

text \<open>
  A run in which everything goes well: the container starts, exits with status 0 and
  writes nothing. The other sample runs differ from it in one answer each.
\<close>

definition sample_world :: world where
  "sample_world =
     \<lparr>uuid4 = ''3f2b8c1e-7a4d-4e0b-9c55-1d2e3f4a5b6c'',
      mkdtemp_raises = None,
      prepare_raises = None,
      run_outcome = Started,
      wait_outcome = Inr (PDict [(''StatusCode'', PInt 0)]),
      logs_outcome = Inr ''done'',
      stop_raises = None,
      remove_raises = None,
      outputs_dir = Some [],
      elapsed = 2,
      data_context_raises = None,
      llm_code = Inr ''pass'',
      llm_insights = Inr ''Revenue grew.'',
      task_end = Completes\<rparr>"

definition timeout_world :: world where
  "timeout_world = sample_world\<lparr>wait_outcome := Inl ''Read timed out.''\<rparr>"

definition bad_json_world :: world where
  "bad_json_world = sample_world\<lparr>outputs_dir := Some [(''metrics.json'', RegularFile ''oops'')]\<rparr>"


definition exec_world :: world where
  "exec_world = sample_world\<lparr>llm_code := Inr ''exec(1)''\<rparr>"

text \<open>A server that has just started.\<close>

definition fresh_server :: server where
  "fresh_server = \<lparr>chat_sessions = [], clock = 0\<rparr>"



section \<open>Properties of the validator\<close>

lemma set_subnodes:
  "set (subnodes n) = insert n (\<Union>c\<in>set (iter_child_nodes n). set (subnodes c))"
  by (subst subnodes.simps) auto

lemma set_walk_queue: "set (walk_queue q) = (\<Union>n\<in>set q. set (subnodes n))"
proof (induction q rule: walk_queue.induct)
  case 1
  then show ?case by simp
next
  case (2 n todo)
  show ?case
    using "2.IH" set_subnodes[of n] by auto
qed

lemma set_ast_walk: "set (ast_walk tree) = set (subnodes tree)"
  unfolding ast_walk_def set_walk_queue by simp

lemma blocked_call_reported:
  assumes "contains_call f tree" and "f \<in> BLOCKED_FUNCTIONS"
  shows "''Blocked function call: '' @ f @ ''()'' \<in> set (check_functions tree)"
proof -
  from assms(1) obtain n where n: "n \<in> set (subnodes tree)" "is_call_to f n"
    by (auto simp: contains_call_def list_ex_iff)
  from n(2) obtain g args kws where c: "n = Call g args kws" "callee_name g = Some f"
    by (cases n) auto
  with assms(2) have "''Blocked function call: '' @ f @ ''()'' \<in> set (function_violations n)"
    by simp
  with n(1) show ?thesis
    by (auto simp: check_functions_def set_ast_walk)
qed

lemma assess_risk_violations:
  "vs \<noteq> [] \<Longrightarrow> assess_risk vs ws = ''high'' \<or> assess_risk vs ws = ''critical''"
  by (simp add: assess_risk_def)

lemma assess_risk_critical:
  assumes "v \<in> set vs" and "k \<in> set critical_keywords" and "str_contains k (lower v)"
  shows "assess_risk vs ws = ''critical''"
proof -
  from assms(1) have "vs \<noteq> []" by auto
  moreover from assms
  have "list_ex (\<lambda>v. list_ex (\<lambda>keyword. str_contains keyword (lower v)) critical_keywords) vs"
    by (auto simp: list_ex_iff)
  ultimately show ?thesis by (simp add: assess_risk_def)
qed

lemma validate_parsed:
  "ast_parse L code = Parsed tree \<Longrightarrow>
   validate L code =
     Inr \<lparr>is_safe =
            (assess_risk (check_imports tree @ check_functions tree)
               (snd (check_file_operations tree) @ check_suspicious_patterns L code)
             \<in> set [''safe'', ''low'']),
          violations = check_imports tree @ check_functions tree,
          warnings = snd (check_file_operations tree) @ check_suspicious_patterns L code,
          risk_level =
            assess_risk (check_imports tree @ check_functions tree)
              (snd (check_file_operations tree) @ check_suspicious_patterns L code)\<rparr>"
  by (simp add: validate_def check_file_operations_def Let_def)

lemma sample_parse_open: "ast_parse sample_lib ''open(1)'' = Parsed open_call_tree"
  by (simp add: sample_lib_def os_system_source_def)

lemma sample_parse_exec: "ast_parse sample_lib ''exec(1)'' = Parsed exec_call_tree"
  by (simp add: sample_lib_def os_system_source_def)

lemma sample_parse_os: "ast_parse sample_lib os_system_source = Parsed os_system_tree"
  by (simp add: sample_lib_def)

lemma sample_parse_bad: "ast_parse sample_lib ''x ='' = SyntaxError ''invalid syntax''"
  by (simp add: sample_lib_def os_system_source_def)

lemma open_call_tree_calls: "contains_call ''open'' open_call_tree"
  by (simp add: contains_call_def open_call_tree_def subnodes.simps ctx_def)

lemma exec_call_tree_calls: "contains_call ''exec'' exec_call_tree"
  by (simp add: contains_call_def exec_call_tree_def subnodes.simps ctx_def)

text \<open>
  C1. A source that parses and contains a call whose callee's final identifier is
  \<open>open\<close> (a bare name or an attribute access) is rejected: \<open>validate\<close> returns a result
  that is not safe and whose violations contain \<open>Blocked function call: open()\<close>.
\<close>

theorem validate_rejects_open:
  assumes "ast_parse L code = Parsed tree" and "contains_call ''open'' tree"
  shows "\<exists>r. validate L code = Inr r \<and> \<not> is_safe r
             \<and> ''Blocked function call: open()'' \<in> set (violations r)"
proof -
  have "''open'' \<in> BLOCKED_FUNCTIONS"
    by (simp add: BLOCKED_FUNCTIONS_def)
  with assms(2) have m: "''Blocked function call: open()'' \<in> set (check_functions tree)"
    using blocked_call_reported[of "''open''" tree] by simp
  then have ne: "check_imports tree @ check_functions tree \<noteq> []"
    by auto
  define ws where "ws = snd (check_file_operations tree) @ check_suspicious_patterns L code"
  have "assess_risk (check_imports tree @ check_functions tree) ws \<notin> set [''safe'', ''low'']"
    using assess_risk_violations[OF ne, of ws] by auto
  then show ?thesis
    using validate_parsed[OF assms(1)] m by (simp add: ws_def)
qed

theorem validate_rejects_open_witness:
  "ast_parse sample_lib ''open(1)'' = Parsed open_call_tree
   \<and> contains_call ''open'' open_call_tree
   \<and> (\<exists>r. validate sample_lib ''open(1)'' = Inr r \<and> \<not> is_safe r
          \<and> ''Blocked function call: open()'' \<in> set (violations r))"
  using validate_rejects_open[OF sample_parse_open open_call_tree_calls]
        sample_parse_open open_call_tree_calls
  by simp
text \<open>
  C3. Whatever \<open>validate\<close> returns, for a source that parses or one that is a syntax
  error: the result is safe exactly when its risk level is \<open>safe\<close> or \<open>low\<close>, and a
  result with a violation has risk level \<open>high\<close> or \<open>critical\<close>.
\<close>

theorem validate_safe_iff_risk:
  assumes "validate L code = Inr r"
  shows "(is_safe r \<longleftrightarrow> risk_level r = ''safe'' \<or> risk_level r = ''low'')
         \<and> (violations r \<noteq> [] \<longrightarrow> risk_level r = ''high'' \<or> risk_level r = ''critical'')"
proof (cases "ast_parse L code")
  case (Parsed tree)
  define vs where "vs = check_imports tree @ check_functions tree"
  define ws where "ws = snd (check_file_operations tree) @ check_suspicious_patterns L code"
  from assms validate_parsed[OF Parsed]
  have r: "r = \<lparr>is_safe = (assess_risk vs ws \<in> set [''safe'', ''low'']), violations = vs,
                 warnings = ws, risk_level = assess_risk vs ws\<rparr>"
    by (simp add: vs_def ws_def)
  have "vs \<noteq> [] \<longrightarrow> assess_risk vs ws = ''high'' \<or> assess_risk vs ws = ''critical''"
    using assess_risk_violations[of vs ws] by blast
  with r show ?thesis by simp
next
  case (SyntaxError e)
  with assms show ?thesis by (auto simp: validate_def)
next
  case (ParseRaised e)
  with assms show ?thesis by (simp add: validate_def)
qed

theorem validate_safe_iff_risk_witness:
  "validate sample_lib ''x ='' =
     Inr \<lparr>is_safe = False, violations = [''Syntax error: invalid syntax''],
          warnings = [], risk_level = ''critical''\<rparr>
   \<and> \<not> is_safe \<lparr>is_safe = False, violations = [''Syntax error: invalid syntax''],
          warnings = [], risk_level = ''critical''\<rparr>
   \<and> risk_level \<lparr>is_safe = False, violations = [''Syntax error: invalid syntax''],
          warnings = [], risk_level = ''critical''\<rparr> = ''critical''"
proof -
  have v: "validate sample_lib ''x ='' =
     Inr \<lparr>is_safe = False, violations = [''Syntax error: invalid syntax''],
          warnings = [], risk_level = ''critical''\<rparr>"
    by (simp add: validate_def sample_parse_bad)
  show ?thesis
    using v validate_safe_iff_risk[OF v] by simp
qed

lemma os_system_tree_violations:
  "check_imports os_system_tree @ check_functions os_system_tree = [''Blocked import: os'']"
  by (simp add: check_imports_def check_functions_def ast_walk_def os_system_tree_def ctx_def
        top_module_def BLOCKED_IMPORTS_def BLOCKED_FUNCTIONS_def)

lemma os_system_tree_file_warnings: "snd (check_file_operations os_system_tree) = []"
  by (simp add: check_file_operations_def ast_walk_def os_system_tree_def ctx_def)

lemma import_os_not_critical:
  "assess_risk [''Blocked import: os''] ws = ''high''"
  by (simp add: assess_risk_def critical_keywords_def lower_def char_lower_def)

text \<open>
  C2. On the source \<open>import os\<close>, newline, \<open>os.system("...")\<close>, that is on any text the
  parser reads as the tree of that program, \<open>validate\<close> reports the one violation
  \<open>Blocked import: os\<close>, not safe, with risk level \<open>high\<close>: the keyword \<open>import os\<close> of
  \<open>_assess_risk\<close> does not occur in the lowered violation, which has a colon after
  \<open>import\<close>.
\<close>

theorem validate_import_os_high:
  assumes "ast_parse L code = Parsed os_system_tree"
  shows "validate L code =
           Inr \<lparr>is_safe = False, violations = [''Blocked import: os''],
                warnings = check_suspicious_patterns L code, risk_level = ''high''\<rparr>"
  using validate_parsed[OF assms]
  by (simp add: os_system_tree_violations os_system_tree_file_warnings import_os_not_critical)

theorem validate_import_os_high_witness:
  "ast_parse sample_lib os_system_source = Parsed os_system_tree
   \<and> validate sample_lib os_system_source =
       Inr \<lparr>is_safe = False, violations = [''Blocked import: os''],
            warnings = [], risk_level = ''high''\<rparr>"
  using validate_import_os_high[OF sample_parse_os] sample_parse_os
  by (simp add: check_suspicious_patterns_def pattern_warning_def sample_lib_def)

section \<open>Properties of the executor\<close>

lemma run_container_wait_raises:
  assumes "run_outcome W = Started" and "wait_outcome W = Inl e"
  shows "run_container W L execution_id t =
           (error_result (stop_and_reraise W e) (elapsed W),
            [ContainerRun (''sandbox_'' @ execution_id), ContainerWait t, ContainerStop 5,
             ContainerRemove True])"
  using assms by (simp add: run_container_def)

text \<open>
  C4, as the code has it. When the deadline expires before the container finishes,
  that is when \<open>container.wait\<close> raises, \<open>execute\<close> stops the container with a grace of
  5 seconds, removes it with \<open>force=True\<close>, removes the workspace and returns a result
  with \<open>success = False\<close>, whose \<open>error\<close> and \<open>stderr\<close> are the text of the exception
  (of the wait, or of the stop when that fails too), with no outputs and no metadata,
  hence no exit code.
\<close>

theorem execute_deadline_expiry:
  assumes "mkdtemp_raises W = None" and "prepare_raises W = None"
    and "run_outcome W = Started" and "wait_outcome W = Inl e"
  shows "execute W L script timeout =
           (Inr \<lparr>success = False, stdout = [], stderr = stop_and_reraise W e, outputs = [],
                 execution_time = elapsed W, error = Some (stop_and_reraise W e),
                 metadata = None\<rparr>,
            [Mkdtemp, WriteScript script, ContainerRun (''sandbox_'' @ take 8 (uuid4 W)),
             ContainerWait (case timeout of
                              None \<Rightarrow> TIMEOUT_SECONDS
                            | Some t \<Rightarrow> if t = 0 then TIMEOUT_SECONDS else t),
             ContainerStop 5, ContainerRemove True, Rmtree])"
  using assms(1,2) run_container_wait_raises[OF assms(3,4)]
  by (simp add: execute_def error_result_def Let_def)

theorem execute_deadline_expiry_witness:
  "execute timeout_world sample_lib ''pass'' (Some 2) =
     (Inr \<lparr>success = False, stdout = [], stderr = ''Read timed out.'', outputs = [],
           execution_time = 2, error = Some ''Read timed out.'', metadata = None\<rparr>,
      [Mkdtemp, WriteScript ''pass'', ContainerRun ''sandbox_3f2b8c1e'',
       ContainerWait 2, ContainerStop 5, ContainerRemove True, Rmtree])"
  using execute_deadline_expiry[of timeout_world "''Read timed out.''" sample_lib "''pass''" "Some 2"]
  by (simp add: timeout_world_def sample_world_def stop_and_reraise_def)

text \<open>
  The claim C4 as stated fails: the error of the result is the text of the exception
  that \<open>wait\<close> raised, not \<open>timeout\<close>, and the result carries no exit code.
\<close>

theorem execute_timeout_counterexample:
  "wait_outcome timeout_world = Inl ''Read timed out.''
   \<and> fst (execute timeout_world sample_lib ''pass'' (Some 2))
       = Inr (error_result ''Read timed out.'' 2)
   \<and> error (error_result ''Read timed out.'' 2) \<noteq> Some ''timeout''
   \<and> metadata (error_result ''Read timed out.'' 2) = None"
  by (simp add: execute_def run_container_def timeout_world_def sample_world_def
        stop_and_reraise_def error_result_def)

lemma collect_loop_malformed:
  assumes "(filename, RegularFile bytes) \<in> set entries"
    and "collect_file L filename bytes = Inl e"
  shows "\<exists>e'. collect_loop L entries outs = Inl e'"
  using assms
proof (induction L entries outs rule: collect_loop.induct)
  case (1 L outs)
  then show ?case by simp
next
  case (2 L filename' rest outs)
  then show ?case by auto
next
  case (3 L filename' bytes' rest outs)
  show ?case
  proof (cases "collect_file L filename' bytes'")
    case (Inl e0)
    then show ?thesis by simp
  next
    case (Inr v)
    with 3 show ?thesis by auto
  qed
qed

lemma collect_file_malformed_json:
  assumes "suffix ''.json'' filename" and "decode_text L bytes = Inr text"
    and "json_loads L text = Inl e"
  shows "collect_file L filename bytes = Inl e"
  using assms by (simp add: collect_file_def)

text \<open>
  C5, what the code does. A regular file of \<open>outputs/\<close> whose name ends in \<open>.json\<close> and
  whose text is not JSON makes \<open>_collect_outputs\<close> raise; after a container that started
  and whose wait and logs succeeded, \<open>_run_container\<close> then returns the error result:
  \<open>success = False\<close> and no outputs at all, whatever the exit status was.
\<close>

theorem malformed_json_fails_execution:
  assumes "run_outcome W = Started" and "wait_outcome W = Inr exit_code"
    and "logs_outcome W = Inr logs" and "outputs_dir W = Some entries"
    and "(filename, RegularFile bytes) \<in> set entries"
    and "suffix ''.json'' filename" and "decode_text L bytes = Inr text"
    and "json_loads L text = Inl e"
  shows "\<exists>e'. collect_outputs L (outputs_dir W) = Inl e'
              \<and> fst (run_container W L execution_id t) = error_result e' (elapsed W)"
proof -
  have "collect_file L filename bytes = Inl e"
    using assms(6-8) by (rule collect_file_malformed_json)
  with assms(5) obtain e' where "collect_loop L entries [] = Inl e'"
    using collect_loop_malformed by blast
  then have c: "collect_outputs L (outputs_dir W) = Inl e'"
    using assms(4) by (simp add: collect_outputs_def)
  with assms(1-3) have "fst (run_container W L execution_id t) = error_result e' (elapsed W)"
    by (simp add: run_container_def)
  with c show ?thesis by blast
qed

theorem malformed_json_fails_execution_witness:
  "collect_outputs sample_lib (outputs_dir bad_json_world)
     = Inl ''Expecting value: line 1 column 1 (char 0)''
   \<and> fst (run_container bad_json_world sample_lib ''3f2b8c1e'' 300)
     = \<lparr>success = False, stdout = [],
        stderr = ''Expecting value: line 1 column 1 (char 0)'', outputs = [],
        execution_time = 2, error = Some ''Expecting value: line 1 column 1 (char 0)'',
        metadata = None\<rparr>"
proof -
  have j: "json_loads sample_lib ''oops'' = Inl ''Expecting value: line 1 column 1 (char 0)''"
    by (simp add: sample_lib_def hi_frame_def)
  have d: "decode_text sample_lib ''oops'' = Inr ''oops''"
    by (simp add: sample_lib_def)
  have s: "suffix ''.json'' ''metrics.json''"
    by (simp add: suffix_to_prefix)
  have w: "run_outcome bad_json_world = Started"
    "wait_outcome bad_json_world = Inr (PDict [(''StatusCode'', PInt 0)])"
    "logs_outcome bad_json_world = Inr ''done''"
    "outputs_dir bad_json_world = Some [(''metrics.json'', RegularFile ''oops'')]"
    "elapsed bad_json_world = 2"
    by (simp_all add: bad_json_world_def sample_world_def)
  have m: "(''metrics.json'', RegularFile ''oops'') \<in> set [(''metrics.json'', RegularFile ''oops'')]"
    by simp
  from malformed_json_fails_execution[OF w(1-4) m s d j, of "''3f2b8c1e''" 300]
  show ?thesis
    by (auto simp: w error_result_def collect_outputs_def collect_file_def s d j)
qed

section \<open>Properties of the orchestrator\<close>

lemma strip_exec: "strip ''exec(1)'' = ''exec(1)''"
  by (simp add: strip_def drop_leading.simps whitespace_def)

lemma generate_exec_world: "generate exec_world = Inr ''exec(1)''"
  by (simp add: generate_def exec_world_def sample_world_def extract_code_def fence_def
        suffix_to_prefix Let_def strip_exec)

text \<open>
  C6. When the generated program parses and contains a call to \<open>exec\<close>, \<open>validate\<close>
  returns a result that is not safe, of risk level \<open>critical\<close>, whose violations include
  \<open>Blocked function call: exec()\<close>; \<open>analyze\<close> then returns the validation failure, an
  unsuccessful result, and nothing was done to a workspace or a container.
\<close>

theorem analyze_rejects_exec:
  assumes "data_context_raises W = None" and "generate W = Inr code"
    and "ast_parse L code = Parsed tree" and "contains_call ''exec'' tree"
  shows "\<exists>r. validate L code = Inr r \<and> \<not> is_safe r \<and> risk_level r = ''critical''
             \<and> ''Blocked function call: exec()'' \<in> set (violations r)
             \<and> analyze W L query timeout = (validation_failed query r, [])
             \<and> \<not> a_success (fst (analyze W L query timeout))
             \<and> snd (analyze W L query timeout) = []"
proof -
  define vs where "vs = check_imports tree @ check_functions tree"
  define ws where "ws = snd (check_file_operations tree) @ check_suspicious_patterns L code"
  define r where "r = \<lparr>is_safe = (assess_risk vs ws \<in> set [''safe'', ''low'']), violations = vs,
                        warnings = ws, risk_level = assess_risk vs ws\<rparr>"
  have v: "validate L code = Inr r"
    using validate_parsed[OF assms(3)] by (simp add: r_def vs_def ws_def)
  have "''exec'' \<in> BLOCKED_FUNCTIONS"
    by (simp add: BLOCKED_FUNCTIONS_def)
  with assms(4) have "''Blocked function call: exec()'' \<in> set (check_functions tree)"
    using blocked_call_reported[of "''exec''" tree] by simp
  then have m: "''Blocked function call: exec()'' \<in> set vs"
    by (simp add: vs_def)
  have k: "''exec'' \<in> set critical_keywords"
    by (simp add: critical_keywords_def)
  have c: "str_contains ''exec'' (lower ''Blocked function call: exec()'')"
    by (simp add: lower_def char_lower_def)
  have risk: "assess_risk vs ws = ''critical''"
    using assess_risk_critical[OF m k c] .
  then have unsafe: "\<not> is_safe r"
    by (simp add: r_def)
  have a: "analyze W L query timeout = (validation_failed query r, [])"
    using assms(1,2) v unsafe by (simp add: analyze_def)
  have "\<not> a_success (validation_failed query r)"
    by (simp add: validation_failed_def)
  with v unsafe risk m a show ?thesis
    by (intro exI[of _ r]) (simp add: r_def)
qed

theorem analyze_rejects_exec_witness:
  "generate exec_world = Inr ''exec(1)''
   \<and> contains_call ''exec'' exec_call_tree
   \<and> (\<exists>r. validate sample_lib ''exec(1)'' = Inr r \<and> \<not> is_safe r
          \<and> risk_level r = ''critical''
          \<and> ''Blocked function call: exec()'' \<in> set (violations r)
          \<and> analyze exec_world sample_lib ''plot returns'' 300 = (validation_failed ''plot returns'' r, [])
          \<and> \<not> a_success (fst (analyze exec_world sample_lib ''plot returns'' 300))
          \<and> snd (analyze exec_world sample_lib ''plot returns'' 300) = [])"
proof -
  have d: "data_context_raises exec_world = None"
    by (simp add: exec_world_def sample_world_def)
  show ?thesis
    using analyze_rejects_exec[OF d generate_exec_world sample_parse_exec exec_call_tree_calls,
            of "''plot returns''" 300]
          generate_exec_world exec_call_tree_calls
    by simp
qed






















section \<open>Properties of the streaming endpoint and the session store\<close>

lemma receive_loop_error_last:
  assumes "receive_loop L sid st events = (st', sent, status, unread)"
    and "ErrorFrame e \<in> set sent"
  shows "status = ReturnedAfterError \<and> last sent = ErrorFrame e
         \<and> unread = drop (length sent) events"
  using assms
proof (induction L sid st events arbitrary: st' sent status unread rule: receive_loop.induct)
  case (1 L sid st)
  then show ?case by simp
next
  case (2 L sid st rest)
  then show ?case by simp
next
  case (3 L sid st data rest)
  obtain st1 res where h: "handle_frame L sid st data = (st1, res)"
    by (cases "handle_frame L sid st data")
  show ?case
  proof (cases res)
    case (Inl e0)
    with h "3.prems" show ?thesis by auto
  next
    case (Inr f)
    obtain st2 sent2 status2 unread2
      where r: "receive_loop L sid st1 rest = (st2, sent2, status2, unread2)"
      by (cases "receive_loop L sid st1 rest")
    from h Inr r "3.prems"(1) have eqs: "sent = f # sent2" "status = status2" "unread = unread2"
      by simp_all
    have "f \<noteq> ErrorFrame e"
      using h Inr
      by (auto simp: handle_frame_def Let_def split: sum.splits pyval.splits)
    with "3.prems"(2) eqs have m: "ErrorFrame e \<in> set sent2" by simp
    from "3.IH"[OF h[symmetric] Inr r m]
    have "status2 = ReturnedAfterError \<and> last sent2 = ErrorFrame e
          \<and> unread2 = drop (length sent2) rest" .
    with eqs m show ?thesis by auto
  qed
qed

text \<open>
  C9, as the code has it. The \<open>try\<close> encloses the whole loop. An error while an
  inbound frame is processed makes the handler send one error frame with the text of
  the exception and return, leaving the frames after it unread. Conversely, once an
  error frame has been sent the handler has returned, that frame is the last outbound
  frame, and the later inbound frames stay unread. A close by the peer ends the loop as
  well, with nothing sent.
\<close>

theorem websocket_error_ends_loop:
  "(snd (handle_frame L sid st0 data) = Inl e \<longrightarrow>
      receive_loop L sid st0 (TextFrame data # rest)
        = (fst (handle_frame L sid st0 data), [ErrorFrame e], ReturnedAfterError, rest))
   \<and> (websocket_chat L sid st events = (st', sent, status, unread)
        \<and> ErrorFrame e \<in> set sent \<longrightarrow>
      status = ReturnedAfterError \<and> last sent = ErrorFrame e
      \<and> unread = drop (length sent) events)
   \<and> receive_loop L sid st0 (Disconnect # rest) = (st0, [], PeerClosed, rest)"
proof (intro conjI impI)
  assume "snd (handle_frame L sid st0 data) = Inl e"
  then show "receive_loop L sid st0 (TextFrame data # rest)
        = (fst (handle_frame L sid st0 data), [ErrorFrame e], ReturnedAfterError, rest)"
    by (cases "handle_frame L sid st0 data") simp
next
  assume a: "websocket_chat L sid st events = (st', sent, status, unread)
             \<and> ErrorFrame e \<in> set sent"
  then show "status = ReturnedAfterError" "last sent = ErrorFrame e"
    "unread = drop (length sent) events"
    using receive_loop_error_last unfolding websocket_chat_def by blast+
next
  show "receive_loop L sid st0 (Disconnect # rest) = (st0, [], PeerClosed, rest)"
    by simp
qed

lemma bad_frame_fails:
  "handle_frame sample_lib sid st ''not json''
     = (st, Inl ''Expecting value: line 1 column 1 (char 0)'')"
  by (simp add: handle_frame_def sample_lib_def hi_frame_def)

lemma websocket_bad_then_good:
  "websocket_chat sample_lib ''s1'' fresh_server [TextFrame ''not json'', TextFrame hi_frame]
     = (\<lparr>chat_sessions = [(''s1'', [])], clock = 0\<rparr>,
        [ErrorFrame ''Expecting value: line 1 column 1 (char 0)''],
        ReturnedAfterError, [TextFrame hi_frame])"
  by (simp add: websocket_chat_def fresh_server_def bad_frame_fails)

theorem websocket_error_ends_loop_witness:
  "websocket_chat sample_lib ''s1'' fresh_server [TextFrame ''not json'', TextFrame hi_frame]
     = (\<lparr>chat_sessions = [(''s1'', [])], clock = 0\<rparr>,
        [ErrorFrame ''Expecting value: line 1 column 1 (char 0)''],
        ReturnedAfterError, [TextFrame hi_frame])
   \<and> [TextFrame hi_frame]
       = drop (length [ErrorFrame ''Expecting value: line 1 column 1 (char 0)''])
           [TextFrame ''not json'', TextFrame hi_frame]
   \<and> receive_loop sample_lib ''s1'' fresh_server [TextFrame ''not json'', TextFrame hi_frame]
       = (fresh_server, [ErrorFrame ''Expecting value: line 1 column 1 (char 0)''],
          ReturnedAfterError, [TextFrame hi_frame])"
  using websocket_error_ends_loop[of sample_lib "''s1''" fresh_server "''not json''"
          "''Expecting value: line 1 column 1 (char 0)''" "[TextFrame hi_frame]" fresh_server
          "[TextFrame ''not json'', TextFrame hi_frame]"
          "\<lparr>chat_sessions = [(''s1'', [])], clock = 0\<rparr>"
          "[ErrorFrame ''Expecting value: line 1 column 1 (char 0)'']"
          ReturnedAfterError "[TextFrame hi_frame]"]
        websocket_bad_then_good bad_frame_fails[of "''s1''" fresh_server]
  by simp

text \<open>
  The claim C9 as stated fails. After a frame that is not JSON the handler sends the
  error frame and returns: the well-formed frame that follows is never read and the
  session stays empty, although the same frame alone is answered with a message.
\<close>

theorem websocket_stays_open_counterexample:
  "fst (snd (snd (websocket_chat sample_lib ''s1'' fresh_server
                    [TextFrame ''not json'', TextFrame hi_frame])))
     = ReturnedAfterError
   \<and> snd (snd (snd (websocket_chat sample_lib ''s1'' fresh_server
                       [TextFrame ''not json'', TextFrame hi_frame])))
     = [TextFrame hi_frame]
   \<and> chat_sessions (fst (websocket_chat sample_lib ''s1'' fresh_server
                            [TextFrame ''not json'', TextFrame hi_frame]))
     = [(''s1'', [])]
   \<and> fst (snd (snd (websocket_chat sample_lib ''s1'' fresh_server [TextFrame hi_frame])))
     = AwaitingFrame
   \<and> length (fst (snd (websocket_chat sample_lib ''s1'' fresh_server [TextFrame hi_frame]))) = 1"
  by (simp add: websocket_bad_then_good)
     (simp add: websocket_chat_def fresh_server_def handle_frame_def sample_lib_def
        append_message_def tick_def process_with_agent_def lower_def char_lower_def Let_def)
lemma get_sessions_ids:
  "sid \<in> session_id ` set (get_sessions st)
   \<longleftrightarrow> (\<exists>messages. (sid, messages) \<in> set (chat_sessions st) \<and> messages \<noteq> [])"
  by (force simp: get_sessions_def session_info_def split: if_splits)

lemma update_new_key:
  "map_of al k = None \<Longrightarrow> AList.update k v al = al @ [(k, v)]"
  by (induction al) (auto split: if_splits)

lemma map_of_None_not_in: "map_of al k = None \<Longrightarrow> (k, v) \<notin> set al"
  by (induction al) (auto split: if_splits)

text \<open>
  C10. When a WebSocket connection is accepted for a session id the store does not
  know and no frame is ever received (the events are empty, or the peer closes at
  once), the session exists afterwards with an empty message list: the history
  endpoint returns it with no messages instead of 404, and the listing leaves it out.
\<close>

theorem websocket_accept_creates_empty_session:
  assumes "map_of (chat_sessions st) sid = None"
    and "events = [] \<or> events = Disconnect # rest"
  shows "chat_sessions (fst (websocket_chat L sid st events)) = chat_sessions st @ [(sid, [])]
         \<and> get_session_history (fst (websocket_chat L sid st events)) sid = Inr (sid, [])
         \<and> sid \<notin> session_id ` set (get_sessions (fst (websocket_chat L sid st events)))
         \<and> fst (snd (websocket_chat L sid st events)) = []"
proof -
  let ?st1 = "st\<lparr>chat_sessions := AList.update sid [] (chat_sessions st)\<rparr>"
  from assms have f: "fst (websocket_chat L sid st events) = ?st1"
    and s: "fst (snd (websocket_chat L sid st events)) = []"
    by (auto simp: websocket_chat_def)
  have c: "chat_sessions ?st1 = chat_sessions st @ [(sid, [])]"
    using update_new_key[OF assms(1)] by simp
  have h: "get_session_history ?st1 sid = Inr (sid, [])"
    by (simp add: get_session_history_def c assms(1) map_add_def)
  have "\<And>messages. (sid, messages) \<in> set (chat_sessions ?st1) \<Longrightarrow> messages = []"
    using map_of_None_not_in[OF assms(1)] by (auto simp: c)
  then have "sid \<notin> session_id ` set (get_sessions ?st1)"
    unfolding get_sessions_ids by blast
  with f s c h show ?thesis by simp
qed

theorem websocket_accept_creates_empty_session_witness:
  "map_of (chat_sessions fresh_server) ''s1'' = None
   \<and> chat_sessions (fst (websocket_chat sample_lib ''s1'' fresh_server [])) = [(''s1'', [])]
   \<and> get_session_history (fst (websocket_chat sample_lib ''s1'' fresh_server [])) ''s1''
       = Inr (''s1'', [])
   \<and> ''s1'' \<notin> session_id ` set (get_sessions (fst (websocket_chat sample_lib ''s1'' fresh_server [])))
   \<and> get_session_history fresh_server ''s1'' = Inl (404, ''Session not found'')"
proof -
  have m: "map_of (chat_sessions fresh_server) ''s1'' = None"
    by (simp add: fresh_server_def)
  have e: "([]::inbound list) = [] \<or> [] = Disconnect # []"
    by simp
  from websocket_accept_creates_empty_session[OF m e, of sample_lib] m
  show ?thesis
    by (simp add: fresh_server_def get_session_history_def)
qed

end
